theory Spec2Isabelle
  imports Main
begin

section \<open>Python strings\<close>

text \<open>
  A Python \<open>str\<close> is a sequence of Unicode code points, and \<open>len\<close>, slicing and
  \<open>strip\<close> count code points, not bytes. A string is therefore a list of code points
  (natural numbers); \<open>lit\<close> embeds an ASCII literal.
\<close>

type_synonym pychar = nat
type_synonym pystr = "pychar list"

definition lit :: "string \<Rightarrow> pystr" where
  "lit cs = map of_char cs"

text \<open>
  \<open>str.isspace\<close> for one code point: the characters of general category \<open>Zs\<close> or of
  bidirectional class \<open>WS\<close>, \<open>B\<close> or \<open>S\<close>.
\<close>

definition py_isspace :: "pychar \<Rightarrow> bool" where
  "py_isspace c \<longleftrightarrow>
     (9 \<le> c \<and> c \<le> 13) \<or> (28 \<le> c \<and> c \<le> 32) \<or> c = 133 \<or> c = 160 \<or> c = 5760 \<or>
     (8192 \<le> c \<and> c \<le> 8202) \<or> c = 8232 \<or> c = 8233 \<or> c = 8239 \<or> c = 8287 \<or> c = 12288"

text \<open>\<open>s.strip()\<close>: leading and trailing whitespace removed.\<close>

definition py_strip :: "pystr \<Rightarrow> pystr" where
  "py_strip s = rev (dropWhile py_isspace (rev (dropWhile py_isspace s)))"

text \<open>\<open>s.startswith(p)\<close> and \<open>p in s\<close> (substring test).\<close>

fun startswith :: "pystr \<Rightarrow> pystr \<Rightarrow> bool" where
  "startswith s [] = True"
| "startswith [] (p # ps) = False"
| "startswith (c # cs) (p # ps) = (c = p \<and> startswith cs ps)"

fun py_in :: "pystr \<Rightarrow> pystr \<Rightarrow> bool" where
  "py_in p [] = (p = [])"
| "py_in p (c # cs) = (startswith (c # cs) p \<or> py_in p cs)"

text \<open>
  \<open>s.split(sep)\<close> for a one-character separator: the fields between the separators, at
  least one field, empty fields kept.
\<close>

fun py_split :: "pychar \<Rightarrow> pystr \<Rightarrow> pystr list" where
  "py_split sep [] = [[]]"
| "py_split sep (c # cs) =
     (if c = sep then [] # py_split sep cs
      else (case py_split sep cs of
              [] \<Rightarrow> [[c]]
            | f # fs \<Rightarrow> (c # f) # fs))"

text \<open>
  \<open>s.split()\<close> without a separator: the maximal runs of non-whitespace characters.
  The first argument is the run read so far.
\<close>

fun split_ws :: "pystr \<Rightarrow> pystr \<Rightarrow> pystr list" where
  "split_ws cur [] = (if cur = [] then [] else [cur])"
| "split_ws cur (c # cs) =
     (if py_isspace c then (if cur = [] then split_ws [] cs else cur # split_ws [] cs)
      else split_ws (cur @ [c]) cs)"

definition py_split_ws :: "pystr \<Rightarrow> pystr list" where
  "py_split_ws s = split_ws [] s"

text \<open>
  \<open>s.splitlines()\<close>: the line boundaries are LF, CR, CR LF, VT, FF, FS, GS, RS, NEL,
  LS and PS; the boundaries are dropped and a final boundary opens no empty line.
  The first argument is the line read so far.
\<close>

definition is_linebreak :: "pychar \<Rightarrow> bool" where
  "is_linebreak c \<longleftrightarrow>
     (10 \<le> c \<and> c \<le> 13) \<or> (28 \<le> c \<and> c \<le> 30) \<or> c = 133 \<or> c = 8232 \<or> c = 8233"

fun splitlines :: "pystr \<Rightarrow> pystr \<Rightarrow> pystr list" where
  "splitlines cur [] = (if cur = [] then [] else [cur])"
| "splitlines cur [c] = (if is_linebreak c then [cur] else [cur @ [c]])"
| "splitlines cur (c # d # cs) =
     (if c = 13 \<and> d = 10 then cur # splitlines [] cs
      else if is_linebreak c then cur # splitlines [] (d # cs)
      else splitlines (cur @ [c]) (d # cs))"

definition py_splitlines :: "pystr \<Rightarrow> pystr list" where
  "py_splitlines s = splitlines [] s"

text \<open>\<open>x or default\<close> on an optional string: \<open>None\<close> and the empty string are falsy.\<close>

definition py_or :: "pystr option \<Rightarrow> pystr \<Rightarrow> pystr" where
  "py_or x d = (case x of None \<Rightarrow> d | Some s \<Rightarrow> if s = [] then d else s)"

section \<open>The environment of the program\<close>

text \<open>
  Every call of \<open>subprocess.run\<close> is either an argument vector (the calls of
  \<open>playerctl\<close>) or a shell command line (the calls of \<open>pactl\<close>, \<open>shell=True\<close>). A call
  either raises or completes with a return code and the captured standard output.
\<close>

datatype invocation = Argv "pystr list" | Shell pystr

datatype completed = Raised | Completed int pystr

text \<open>
  The environment of one run of a callback: the path \<open>PLAYERCTL\<close> found at startup, the
  answer of the operating system to each \<open>subprocess.run\<close>, \<open>str.capitalize\<close> of the
  Python runtime (its Unicode case tables are not part of the program), and the answer of
  \<open>root.winfo_exists()\<close>.
\<close>

record env =
  PLAYERCTL :: pystr
  subprocess_run :: "invocation \<Rightarrow> completed"
  capitalize :: "pystr \<Rightarrow> pystr"
  winfo_exists :: bool

text \<open>
  The globals \<open>selected_player\<close> and \<open>player_list\<close>, the widgets the callbacks write
  (the values and the shown text of \<open>player_combo\<close>, the three \<open>StringVar\<close>s), the calls
  of \<open>subprocess.run\<close> made so far, and the delays of the pending \<open>root.after\<close> timers of
  \<open>update_info\<close>.
\<close>

record state =
  selected_player :: "(pystr \<times> pystr) option"
  player_list :: "(pystr \<times> pystr) list"
  combo_values :: "pystr list"
  combo_text :: pystr
  title_var :: pystr
  status_var :: pystr
  volume_var :: pystr
  invoked :: "invocation list"
  timers :: "nat list"

section \<open>Helper functions\<close>

text \<open>
  Each function that runs a subprocess returns its value together with the calls of
  \<open>subprocess.run\<close> it made, in order.
\<close>

definition run_playerctl :: "env \<Rightarrow> pystr list \<Rightarrow> pystr option \<Rightarrow> pystr option \<times> invocation list" where
  "run_playerctl w args player =
     (let cmd = [PLAYERCTL w]
                @ (case player of None \<Rightarrow> [] | Some p \<Rightarrow> if p = [] then [] else [lit ''-p'', p])
                @ args
      in (case subprocess_run w (Argv cmd) of
            Raised \<Rightarrow> None
          | Completed returncode out \<Rightarrow> if returncode = 0 then Some (py_strip out) else None,
          [Argv cmd]))"

text \<open>Code point 46 is the full stop, 8594 the rightwards arrow, 32 the space.\<close>

definition get_friendly_name :: "env \<Rightarrow> pystr \<Rightarrow> pystr \<times> invocation list" where
  "get_friendly_name w player_id =
     (case run_playerctl w
             [lit ''metadata'', lit ''--format'', lit ''{{xesam:artist}} - {{xesam:title}}'']
             (Some player_id) of
        (data, c) \<Rightarrow>
          (let app = capitalize w (py_split 46 player_id ! 0)
           in (case data of
                 None \<Rightarrow> app
               | Some d \<Rightarrow>
                   if d = [] then app
                   else app @ [32, 8594, 32]
                        @ (take 60 d @ (if length d > 60 then lit ''...'' else [])),
               c)))"

fun list_players_loop :: "env \<Rightarrow> pystr list \<Rightarrow> (pystr \<times> pystr) list \<times> invocation list" where
  "list_players_loop w [] = ([], [])"
| "list_players_loop w (l # ls) =
     (if py_strip l = [] \<or> startswith (py_strip l) (lit ''No players found'')
      then list_players_loop w ls
      else (case get_friendly_name w (py_strip l) of
              (name, c1) \<Rightarrow>
                (case list_players_loop w ls of
                   (players, c2) \<Rightarrow> ((py_strip l, name) # players, c1 @ c2))))"

definition list_players :: "env \<Rightarrow> (pystr \<times> pystr) list \<times> invocation list" where
  "list_players w =
     (case run_playerctl w [lit ''-l''] None of
        (result, c0) \<Rightarrow>
          (case result of
             None \<Rightarrow> ([], c0)
           | Some r \<Rightarrow>
               if r = [] then ([], c0)
               else (case list_players_loop w (py_splitlines r) of
                       (players, c1) \<Rightarrow> (players, c0 @ c1))))"

text \<open>
  The three status strings start with the code points 9654 (black right-pointing
  triangle), 9208 (double vertical bar) and 9632 (black square).
\<close>

definition STATUS_PLAYING :: pystr where
  "STATUS_PLAYING = 9654 # lit '' Tocando''"

definition STATUS_PAUSED :: pystr where
  "STATUS_PAUSED = 9208 # lit '' Pausado''"

definition STATUS_STOPPED :: pystr where
  "STATUS_STOPPED = 9632 # lit '' Parado''"

definition get_player_status :: "env \<Rightarrow> pystr \<Rightarrow> pystr \<times> invocation list" where
  "get_player_status w player =
     (case run_playerctl w [lit ''status''] (Some player) of
        (status, c) \<Rightarrow>
          (if status = Some (lit ''Playing'') then STATUS_PLAYING
           else if status = Some (lit ''Paused'') then STATUS_PAUSED
           else STATUS_STOPPED,
           c))"

definition run_cmd :: "env \<Rightarrow> state \<Rightarrow> pystr \<Rightarrow> pystr option \<times> invocation list" where
  "run_cmd w st cmd =
     (case selected_player st of
        None \<Rightarrow> (None, [])
      | Some sp \<Rightarrow> run_playerctl w (py_split_ws cmd) (Some (fst sp)))"

section \<open>Media controls\<close>

text \<open>The button callbacks drop the value of \<open>run_cmd\<close>; what remains is its calls.\<close>

definition play_pause :: "env \<Rightarrow> state \<Rightarrow> state" where
  "play_pause w st = st\<lparr>invoked := invoked st @ snd (run_cmd w st (lit ''play-pause''))\<rparr>"

definition next_track :: "env \<Rightarrow> state \<Rightarrow> state" where
  "next_track w st = st\<lparr>invoked := invoked st @ snd (run_cmd w st (lit ''next''))\<rparr>"

definition prev_track :: "env \<Rightarrow> state \<Rightarrow> state" where
  "prev_track w st = st\<lparr>invoked := invoked st @ snd (run_cmd w st (lit ''previous''))\<rparr>"

definition seek_forward :: "env \<Rightarrow> state \<Rightarrow> state" where
  "seek_forward w st = st\<lparr>invoked := invoked st @ snd (run_cmd w st (lit ''position 10+''))\<rparr>"

definition seek_backward :: "env \<Rightarrow> state \<Rightarrow> state" where
  "seek_backward w st = st\<lparr>invoked := invoked st @ snd (run_cmd w st (lit ''position 10-''))\<rparr>"

section \<open>Volume\<close>

text \<open>
  The body of the \<open>for\<close> loop of \<open>get_volume\<close>: \<open>Inr (Some vol)\<close> when the loop returns
  \<open>vol\<close>, \<open>Inr None\<close> when it ends without returning, \<open>Inl IndexError\<close> when
  \<open>line.split("/")[1]\<close> raises. Code point 47 is the slash.
\<close>

datatype error = IndexError

fun get_volume_loop :: "pystr list \<Rightarrow> error + pystr option" where
  "get_volume_loop [] = Inr None"
| "get_volume_loop (line # ls) =
     (if py_in (lit ''Volume:'') line
      then (case py_split 47 line of
              f0 # f1 # fs \<Rightarrow> Inr (Some (py_strip f1))
            | _ \<Rightarrow> Inl IndexError)
      else get_volume_loop ls)"

text \<open>
  The bare \<open>except\<close> swallows a raising \<open>subprocess.run\<close> and the \<open>IndexError\<close> alike;
  both fall through to the final \<open>return "--%"\<close>. The return code is not read.
\<close>

definition get_volume :: "env \<Rightarrow> pystr \<times> invocation list" where
  "get_volume w =
     (let cmd = Shell (lit ''pactl get-sink-volume @DEFAULT_SINK@'')
      in (case subprocess_run w cmd of
            Raised \<Rightarrow> lit ''--%''
          | Completed returncode out \<Rightarrow>
              (case get_volume_loop (py_splitlines out) of
                 Inr (Some vol) \<Rightarrow> vol
               | Inr None \<Rightarrow> lit ''--%''
               | Inl e \<Rightarrow> lit ''--%''),
          [cmd]))"

section \<open>The refresh tick\<close>

text \<open>The fallback title; code point 237 is the i with acute accent.\<close>

definition TITLE_UNAVAILABLE :: pystr where
  "TITLE_UNAVAILABLE = lit ''T'' @ [237] @ lit ''tulo indispon'' @ [237] @ lit ''vel''"

text \<open>
  \<open>update_info\<close>, one \<open>let\<close> per block of the source: the registry and the combobox
  values, the choice of the selection, the title and status lines, the volume line and
  the timer. \<open>player_combo.current(0)\<close> shows the first of the values; it is only reached
  when there is one.
\<close>

definition update_info :: "env \<Rightarrow> bool \<Rightarrow> state \<Rightarrow> state" where
  "update_info w force st =
     (case list_players w of
        (players, c1) \<Rightarrow>
          (let display_names = map snd players;
               st1 = st\<lparr>player_list := players, combo_values := display_names\<rparr>;
               st2 = (if display_names = [] then
                        st1\<lparr>combo_text := lit ''Nenhum player ativo'', selected_player := None\<rparr>
                      else if selected_player st1 \<noteq> None \<and> \<not> force then st1
                      else st1\<lparr>combo_text := display_names ! 0,
                               selected_player :=
                                 (if players \<noteq> [] then Some (players ! 0) else None)\<rparr>);
               (st3, c2) =
                 (case selected_player st2 of
                    None \<Rightarrow>
                      (st2\<lparr>title_var := lit ''Nenhum player selecionado'',
                           status_var := lit ''Selecione um player acima''\<rparr>, [])
                  | Some sp \<Rightarrow>
                      (case run_cmd w st2 (lit ''metadata xesam:title'') of
                         (t, ct) \<Rightarrow>
                           (case run_cmd w st2 (lit ''metadata xesam:artist'') of
                              (a, ca) \<Rightarrow>
                                (case get_player_status w (fst sp) of
                                   (status, cs) \<Rightarrow>
                                     (let title = py_or t TITLE_UNAVAILABLE;
                                          artist = py_or a []
                                      in (st2\<lparr>title_var :=
                                                take 50 title
                                                @ (if length title > 50 then lit ''...'' else []),
                                              status_var :=
                                                py_strip (artist @ lit '' '' @ status)\<rparr>,
                                          ct @ ca @ cs))))));
               (vol, c3) = get_volume w;
               st4 = st3\<lparr>volume_var := vol, invoked := invoked st3 @ c1 @ c2 @ c3\<rparr>
           in if winfo_exists w then st4\<lparr>timers := timers st4 @ [3000]\<rparr> else st4))"

section \<open>Notions of the specification\<close>

text \<open>
  ``The stdout with surrounding whitespace stripped'': \<open>s\<close> is what remains of \<open>out\<close>
  when a whitespace prefix and a whitespace suffix are cut off, and \<open>s\<close> itself neither
  starts nor ends with whitespace.
\<close>

definition whitespace_stripped :: "pystr \<Rightarrow> pystr \<Rightarrow> bool" where
  "whitespace_stripped out s \<longleftrightarrow>
     (\<exists>pre post. out = pre @ s @ post \<and> list_all py_isspace pre \<and> list_all py_isspace post)
     \<and> (s = [] \<or> \<not> (py_isspace (hd s) \<or> py_isspace (last s)))"

text \<open>
  ``The substring between the first and the second slash'' of a line: what follows the
  first slash, up to the next slash (or to the end of the line when there is no other).
\<close>

definition between_slashes :: "pystr \<Rightarrow> pystr" where
  "between_slashes line = takeWhile (\<lambda>c. c \<noteq> 47) (tl (dropWhile (\<lambda>c. c \<noteq> 47) line))"

text \<open>
  A call of \<open>subprocess.run\<close> fails when it raises or completes with a non-zero return
  code.
\<close>

definition failed :: "completed \<Rightarrow> bool" where
  "failed r = (case r of Raised \<Rightarrow> True | Completed returncode out \<Rightarrow> returncode \<noteq> 0)"

text \<open>The display state of the window: title, status, volume, combobox values and text.\<close>

definition display :: "state \<Rightarrow> pystr \<times> pystr \<times> pystr \<times> pystr list \<times> pystr" where
  "display st = (title_var st, status_var st, volume_var st, combo_values st, combo_text st)"

section \<open>Concrete environments\<close>

text \<open>\<open>str.capitalize\<close> on ASCII letters.\<close>

definition ascii_capitalize :: "pystr \<Rightarrow> pystr" where
  "ascii_capitalize s =
     (case s of
        [] \<Rightarrow> []
      | c # cs \<Rightarrow> (if 97 \<le> c \<and> c \<le> 122 then c - 32 else c)
                 # map (\<lambda>d. if 65 \<le> d \<and> d \<le> 90 then d + 32 else d) cs)"

text \<open>
  Two players, as in the end-to-end scenario of the specification. The title of the
  first is 51 characters long and its artist-and-title snippet 61; the artist query and
  every query about the second player exit with status 1.
\<close>

definition demo_run :: "invocation \<Rightarrow> completed" where
  "demo_run call =
     (if call = Argv [lit ''playerctl'', lit ''-l'']
      then Completed 0 (lit ''spotify.instance1'' @ [10] @ lit ''firefox.instance2'' @ [10])
      else if call = Argv [lit ''playerctl'', lit ''-p'', lit ''spotify.instance1'',
                           lit ''metadata'', lit ''xesam:title'']
      then Completed 0 (replicate 51 120 @ [10])
      else if call = Argv [lit ''playerctl'', lit ''-p'', lit ''spotify.instance1'',
                           lit ''status'']
      then Completed 0 (lit ''Playing'' @ [10])
      else if call = Argv [lit ''playerctl'', lit ''-p'', lit ''spotify.instance1'',
                           lit ''metadata'', lit ''--format'',
                           lit ''{{xesam:artist}} - {{xesam:title}}'']
      then Completed 0 (replicate 61 121 @ [10])
      else if call = Shell (lit ''pactl get-sink-volume @DEFAULT_SINK@'')
      then Completed 0 (lit ''Volume: front-left: .../  45% / ...'' @ [10])
      else Completed 1 [])"

definition demo_env :: env where
  "demo_env = \<lparr>PLAYERCTL = lit ''playerctl'', subprocess_run = demo_run,
               capitalize = ascii_capitalize, winfo_exists = True\<rparr>"

text \<open>
  One player is listed, every other call of \<open>playerctl\<close> exits with status 1, the output
  of \<open>pactl\<close> has a volume line without a slash, and the window is gone.
\<close>

definition failing_run :: "invocation \<Rightarrow> completed" where
  "failing_run call =
     (if call = Argv [lit ''playerctl'', lit ''-l''] then Completed 0 (lit ''vlc'' @ [10])
      else if call = Shell (lit ''pactl get-sink-volume @DEFAULT_SINK@'')
      then Completed 0 (lit ''Volume: muted'' @ [10])
      else Completed 1 [])"

definition failing_env :: env where
  "failing_env = \<lparr>PLAYERCTL = lit ''playerctl'', subprocess_run = failing_run,
                  capitalize = ascii_capitalize, winfo_exists = False\<rparr>"

text \<open>
  The listing exits with status 0 and prints a warning instead of a player name, and
  \<open>pactl\<close> exits with status 1 after printing a volume line; every other call exits
  with status 1.
\<close>

definition noisy_run :: "invocation \<Rightarrow> completed" where
  "noisy_run call =
     (if call = Argv [lit ''playerctl'', lit ''-l'']
      then Completed 0 (lit ''Warning: no bus'' @ [10])
      else if call = Shell (lit ''pactl get-sink-volume @DEFAULT_SINK@'')
      then Completed 1 (lit ''Volume: front-left: 65536 / 100% / 0.00 dB'' @ [10])
      else Completed 1 [])"

definition noisy_env :: env where
  "noisy_env = \<lparr>PLAYERCTL = lit ''playerctl'', subprocess_run = noisy_run,
                capitalize = ascii_capitalize, winfo_exists = True\<rparr>"

text \<open>
  \<open>pactl\<close> prints a volume line with nothing but a space between its first two
  slashes; every call of \<open>playerctl\<close> raises.
\<close>

definition slashes_run :: "invocation \<Rightarrow> completed" where
  "slashes_run call =
     (if call = Shell (lit ''pactl get-sink-volume @DEFAULT_SINK@'')
      then Completed 0 (lit ''Volume: / / 45%'' @ [10])
      else Raised)"

definition slashes_env :: env where
  "slashes_env = \<lparr>PLAYERCTL = lit ''playerctl'', subprocess_run = slashes_run,
                  capitalize = ascii_capitalize, winfo_exists = True\<rparr>"

text \<open>Every call of \<open>subprocess.run\<close> raises.\<close>

definition silent_env :: env where
  "silent_env = \<lparr>PLAYERCTL = lit ''playerctl'', subprocess_run = (\<lambda>call. Raised),
                 capitalize = ascii_capitalize, winfo_exists = True\<rparr>"

text \<open>The state at startup, and a state in which the second player is selected.\<close>

definition initial_state :: state where
  "initial_state = \<lparr>selected_player = None, player_list = [], combo_values = [],
                    combo_text = [], title_var = lit ''Carregando...'', status_var = [],
                    volume_var = lit ''--%'', invoked = [], timers = []\<rparr>"

definition firefox_state :: state where
  "firefox_state = initial_state\<lparr>selected_player :=
                                   Some (lit ''firefox.instance2'', lit ''Firefox''),
                                 combo_text := lit ''Firefox''\<rparr>"

section \<open>Facts about the string functions\<close>

lemma py_strip_stripped: "whitespace_stripped out (py_strip out)"
proof -
  let ?rest = "dropWhile py_isspace out"
  let ?s = "py_strip out"
  have split_rest: "?rest = ?s @ rev (takeWhile py_isspace (rev ?rest))"
  proof -
    have "rev (rev ?rest)
        = rev (takeWhile py_isspace (rev ?rest) @ dropWhile py_isspace (rev ?rest))"
      by (simp only: takeWhile_dropWhile_id)
    then have "?rest = rev (dropWhile py_isspace (rev ?rest))
        @ rev (takeWhile py_isspace (rev ?rest))"
      by (simp only: rev_rev_ident rev_append)
    then show ?thesis by (simp only: py_strip_def)
  qed
  have "out = takeWhile py_isspace out @ ?s @ rev (takeWhile py_isspace (rev ?rest))"
    using split_rest takeWhile_dropWhile_id [of py_isspace out] by simp
  moreover have "list_all py_isspace (takeWhile py_isspace out)"
    by (auto simp: list_all_iff dest: set_takeWhileD)
  moreover have "list_all py_isspace (rev (takeWhile py_isspace (rev ?rest)))"
    by (auto simp: list_all_iff dest: set_takeWhileD)
  ultimately have cut: "\<exists>pre post. out = pre @ ?s @ post \<and> list_all py_isspace pre
      \<and> list_all py_isspace post"
    by blast
  have ends: "\<not> (py_isspace (hd ?s) \<or> py_isspace (last ?s))" if ne: "?s \<noteq> []"
  proof -
    from ne have rest_ne: "?rest \<noteq> []"
      by (metis py_strip_def dropWhile.simps(1) rev.simps(1))
    have "hd ?rest = hd ?s"
      using split_rest ne by (metis hd_append2)
    moreover have "\<not> py_isspace (hd ?rest)"
      using rest_ne by (rule hd_dropWhile)
    moreover have "last ?s = hd (dropWhile py_isspace (rev ?rest))"
      using ne by (simp add: py_strip_def last_rev)
    moreover have "\<not> py_isspace (hd (dropWhile py_isspace (rev ?rest)))"
    proof (rule hd_dropWhile)
      from ne show "dropWhile py_isspace (rev ?rest) \<noteq> []"
        by (metis py_strip_def rev.simps(1))
    qed
    ultimately show ?thesis by simp
  qed
  show ?thesis
    unfolding whitespace_stripped_def using cut ends by blast
qed

lemma py_split_not_Nil: "py_split sep s \<noteq> []"
  by (induction s) (auto split: list.splits)

lemma py_split_first: "py_split sep s ! 0 = takeWhile (\<lambda>c. c \<noteq> sep) s"
  by (induction s) (auto split: list.splits simp: py_split_not_Nil)

lemma py_split_rest:
  "tl (py_split sep s) =
     (if sep \<in> set s then py_split sep (tl (dropWhile (\<lambda>c. c \<noteq> sep) s)) else [])"
  by (induction s) (auto split: list.splits simp: py_split_not_Nil)

lemma py_split_second:
  "(case py_split 47 line of f0 # f1 # fs \<Rightarrow> Inr (Some (g f1)) | _ \<Rightarrow> Inl IndexError) =
     (if 47 \<in> set line then Inr (Some (g (between_slashes line))) else Inl IndexError)"
proof (cases "py_split 47 line")
  case Nil
  then show ?thesis by (simp add: py_split_not_Nil)
next
  case (Cons f0 rest)
  then have rest: "rest = (if 47 \<in> set line
      then py_split 47 (tl (dropWhile (\<lambda>c. c \<noteq> 47) line)) else [])"
    using py_split_rest [of 47 line] by simp
  show ?thesis
  proof (cases "47 \<in> set line")
    case False
    with Cons rest show ?thesis by simp
  next
    case True
    with rest have "rest \<noteq> []"
      by (simp add: py_split_not_Nil)
    then obtain f1 fs where r: "rest = f1 # fs"
      by (cases rest) auto
    with True rest have "f1 = py_split 47 (tl (dropWhile (\<lambda>c. c \<noteq> 47) line)) ! 0"
      by (metis nth_Cons_0)
    then have "f1 = between_slashes line"
      by (simp add: py_split_first between_slashes_def)
    with Cons r True show ?thesis by simp
  qed
qed

lemma split_ws_title:
  "py_split_ws (lit ''metadata xesam:title'') = [lit ''metadata'', lit ''xesam:title'']"
  by (simp add: py_split_ws_def lit_def py_isspace_def)

lemma split_ws_artist:
  "py_split_ws (lit ''metadata xesam:artist'') = [lit ''metadata'', lit ''xesam:artist'']"
  by (simp add: py_split_ws_def lit_def py_isspace_def)

section \<open>The refresh tick, field by field\<close>

lemma update_info_selected:
  "selected_player (update_info w force st) =
     (if fst (list_players w) = [] then None
      else if selected_player st \<noteq> None \<and> \<not> force then selected_player st
      else Some (fst (list_players w) ! 0))"
  by (simp add: update_info_def Let_def split: prod.splits option.splits)

lemma update_info_player_list:
  "player_list (update_info w force st) = fst (list_players w)"
  by (simp add: update_info_def Let_def split: prod.splits option.splits)

lemma update_info_combo_values:
  "combo_values (update_info w force st) = map snd (fst (list_players w))"
  by (simp add: update_info_def Let_def split: prod.splits option.splits)

lemma update_info_combo_text:
  "combo_text (update_info w force st) =
     (if fst (list_players w) = [] then lit ''Nenhum player ativo''
      else if selected_player st \<noteq> None \<and> \<not> force then combo_text st
      else snd (fst (list_players w) ! 0))"
  by (auto simp add: update_info_def Let_def nth_map split: prod.splits option.splits)

lemma update_info_volume:
  "volume_var (update_info w force st) = fst (get_volume w)"
  by (simp add: update_info_def Let_def split: prod.splits option.splits)

lemma update_info_timers:
  "timers (update_info w force st) =
     (if winfo_exists w then timers st @ [3000] else timers st)"
  by (simp add: update_info_def Let_def split: prod.splits option.splits)

lemma update_info_title:
  "title_var (update_info w force st) =
     (case selected_player (update_info w force st) of
        None \<Rightarrow> lit ''Nenhum player selecionado''
      | Some sp \<Rightarrow>
          (let title = py_or (fst (run_playerctl w [lit ''metadata'', lit ''xesam:title'']
                                     (Some (fst sp)))) TITLE_UNAVAILABLE
           in take 50 title @ (if length title > 50 then lit ''...'' else [])))"
  by (auto simp add: update_info_def run_cmd_def split_ws_title Let_def
      split: prod.splits option.splits)

lemma update_info_status:
  "status_var (update_info w force st) =
     (case selected_player (update_info w force st) of
        None \<Rightarrow> lit ''Selecione um player acima''
      | Some sp \<Rightarrow>
          py_strip (py_or (fst (run_playerctl w [lit ''metadata'', lit ''xesam:artist'']
                                  (Some (fst sp)))) []
                    @ lit '' '' @ fst (get_player_status w (fst sp))))"
  by (auto simp add: update_info_def run_cmd_def split_ws_artist Let_def
      split: prod.splits option.splits)

text \<open>The listing and the labels of the three concrete environments.\<close>

lemma demo_players:
  "fst (list_players demo_env) =
     [(lit ''spotify.instance1'',
       lit ''Spotify'' @ [32, 8594, 32] @ replicate 60 121 @ lit ''...''),
      (lit ''firefox.instance2'', lit ''Firefox'')]"
  by (simp add: list_players_def get_friendly_name_def run_playerctl_def demo_env_def
      demo_run_def lit_def py_strip_def py_isspace_def py_splitlines_def is_linebreak_def
      ascii_capitalize_def split: prod.splits)

lemma failing_players: "fst (list_players failing_env) = [(lit ''vlc'', lit ''Vlc'')]"
  by (simp add: list_players_def get_friendly_name_def run_playerctl_def failing_env_def
      failing_run_def lit_def py_strip_def py_isspace_def py_splitlines_def is_linebreak_def
      ascii_capitalize_def split: prod.splits)

lemma silent_players: "fst (list_players silent_env) = []"
  by (simp add: list_players_def run_playerctl_def silent_env_def)

section \<open>The command runner\<close>

text \<open>
  Claim C4. The command runner makes exactly one call of \<open>subprocess.run\<close>, with the
  path of the tool, the targeting flag when a player is given, and the arguments. When
  the call raises or exits with a non-zero status the runner returns \<open>None\<close>; when it
  exits with status 0 the runner returns the standard output with the surrounding
  whitespace stripped. The runner always returns a value: no exception reaches the
  caller.
\<close>

theorem run_playerctl_result:
  "call = Argv ([PLAYERCTL w]
                @ (case player of None \<Rightarrow> [] | Some p \<Rightarrow> if p = [] then [] else [lit ''-p'', p])
                @ args) \<Longrightarrow>
   snd (run_playerctl w args player) = [call] \<and>
   (case subprocess_run w call of
      Raised \<Rightarrow> fst (run_playerctl w args player) = None
    | Completed returncode out \<Rightarrow>
        (returncode \<noteq> 0 \<longrightarrow> fst (run_playerctl w args player) = None) \<and>
        (returncode = 0 \<longrightarrow>
           fst (run_playerctl w args player) = Some (py_strip out) \<and>
           whitespace_stripped out (py_strip out)))"
  by (simp add: run_playerctl_def py_strip_stripped split: completed.splits)

theorem run_playerctl_result_witness:
  "snd (run_playerctl demo_env [lit ''status''] (Some (lit ''spotify.instance1'')))
     = [Argv [lit ''playerctl'', lit ''-p'', lit ''spotify.instance1'', lit ''status'']] \<and>
   fst (run_playerctl demo_env [lit ''status''] (Some (lit ''spotify.instance1'')))
     = Some (lit ''Playing'') \<and>
   whitespace_stripped (lit ''Playing'' @ [10]) (lit ''Playing'') \<and>
   fst (run_playerctl demo_env [lit ''status''] (Some (lit ''firefox.instance2''))) = None \<and>
   fst (run_playerctl silent_env [lit ''-l''] None) = None"
  using
    run_playerctl_result [of
      "Argv [lit ''playerctl'', lit ''-p'', lit ''spotify.instance1'', lit ''status'']"
      demo_env "Some (lit ''spotify.instance1'')" "[lit ''status'']"]
    run_playerctl_result [of
      "Argv [lit ''playerctl'', lit ''-p'', lit ''firefox.instance2'', lit ''status'']"
      demo_env "Some (lit ''firefox.instance2'')" "[lit ''status'']"]
    run_playerctl_result [of "Argv [lit ''playerctl'', lit ''-l'']" silent_env None
      "[lit ''-l'']"]
  by (simp add: demo_env_def demo_run_def silent_env_def lit_def py_strip_def py_isspace_def)

section \<open>The status formatter\<close>

text \<open>
  Claim C7. The status formatter maps the raw status \<open>Playing\<close> to the playing string,
  \<open>Paused\<close> to the paused string, and every other raw status, the absent one included,
  to the stopped string.
\<close>

theorem get_player_status_mapping:
  "raw = fst (run_playerctl w [lit ''status''] (Some player)) \<Longrightarrow>
   (raw = Some (lit ''Playing'') \<longrightarrow> fst (get_player_status w player) = STATUS_PLAYING) \<and>
   (raw = Some (lit ''Paused'') \<longrightarrow> fst (get_player_status w player) = STATUS_PAUSED) \<and>
   (raw \<noteq> Some (lit ''Playing'') \<and> raw \<noteq> Some (lit ''Paused'') \<longrightarrow>
      fst (get_player_status w player) = STATUS_STOPPED) \<and>
   (raw = None \<longrightarrow> fst (get_player_status w player) = STATUS_STOPPED)"
  by (simp add: get_player_status_def lit_def split: prod.splits)

theorem get_player_status_mapping_witness:
  "fst (get_player_status demo_env (lit ''spotify.instance1'')) = 9654 # lit '' Tocando'' \<and>
   fst (get_player_status demo_env (lit ''firefox.instance2'')) = 9632 # lit '' Parado''"
  using
    get_player_status_mapping [of "Some (lit ''Playing'')" demo_env "lit ''spotify.instance1''"]
    get_player_status_mapping [of None demo_env "lit ''firefox.instance2''"]
  by (simp add: run_playerctl_def demo_env_def demo_run_def lit_def py_strip_def
      py_isspace_def STATUS_PLAYING_def STATUS_STOPPED_def)

section \<open>The transport operations\<close>

text \<open>
  Claim C10. When no player is selected, \<open>run_cmd\<close> returns \<open>None\<close> without any call of
  \<open>subprocess.run\<close>, and each of the five transport operations (play-pause, next,
  previous, seek forward, seek backward) leaves the whole state as it was: the
  selection, the display and the record of the calls made.
\<close>

theorem transport_without_selection:
  "selected_player st = None \<Longrightarrow>
   run_cmd w st cmd = (None, []) \<and> play_pause w st = st \<and> next_track w st = st \<and>
   prev_track w st = st \<and> seek_forward w st = st \<and> seek_backward w st = st"
  by (simp add: run_cmd_def play_pause_def next_track_def prev_track_def
      seek_forward_def seek_backward_def)

theorem transport_without_selection_witness:
  "selected_player initial_state = None \<and>
   run_cmd demo_env initial_state (lit ''play-pause'') = (None, []) \<and>
   invoked (play_pause demo_env initial_state) = [] \<and>
   invoked (seek_backward demo_env initial_state) = [] \<and>
   display (next_track demo_env initial_state) = display initial_state"
  using transport_without_selection [of initial_state demo_env "lit ''play-pause''"]
  by (simp add: initial_state_def)

text \<open>With a player selected the operation does call the tool, for that player.\<close>

lemma play_pause_with_selection:
  "invoked (play_pause demo_env firefox_state)
     = [Argv [lit ''playerctl'', lit ''-p'', lit ''firefox.instance2'', lit ''play-pause'']]"
  by (simp add: play_pause_def run_cmd_def run_playerctl_def firefox_state_def
      initial_state_def demo_env_def py_split_ws_def lit_def py_isspace_def Let_def)

section \<open>The selection\<close>

text \<open>
  Claim C1. When the registry returns a non-empty list and either no player is selected
  or the tick is forced, the tick selects the first element of the list and shows the
  first entry of the combobox values, which is the label of that element.
\<close>

theorem first_player_selected:
  "fst (list_players w) \<noteq> [] \<Longrightarrow> selected_player st = None \<or> force \<Longrightarrow>
   selected_player (update_info w force st) = Some (fst (list_players w) ! 0) \<and>
   combo_text (update_info w force st) = combo_values (update_info w force st) ! 0 \<and>
   combo_text (update_info w force st) = snd (fst (list_players w) ! 0)"
  by (auto simp add: update_info_selected update_info_combo_text update_info_combo_values
      nth_map)

theorem first_player_selected_witness:
  "selected_player (update_info demo_env False initial_state)
     = Some (lit ''spotify.instance1'',
             lit ''Spotify'' @ [32, 8594, 32] @ replicate 60 121 @ lit ''...'') \<and>
   selected_player (update_info demo_env True firefox_state)
     = Some (lit ''spotify.instance1'',
             lit ''Spotify'' @ [32, 8594, 32] @ replicate 60 121 @ lit ''...'') \<and>
   combo_text (update_info demo_env True firefox_state)
     = lit ''Spotify'' @ [32, 8594, 32] @ replicate 60 121 @ lit ''...''"
  using first_player_selected [of demo_env initial_state False]
    first_player_selected [of demo_env firefox_state True]
  by (simp add: demo_players initial_state_def firefox_state_def update_info_combo_values)

text \<open>
  Claim C2. When the registry returns the empty list, the tick clears the selection,
  whatever it was and whether or not the tick is forced, and the window shows the
  placeholders: no values in the combobox, its text, the title and the status line.
\<close>

theorem no_players_clears_selection:
  "fst (list_players w) = [] \<Longrightarrow>
   selected_player (update_info w force st) = None \<and>
   player_list (update_info w force st) = [] \<and>
   combo_values (update_info w force st) = [] \<and>
   combo_text (update_info w force st) = lit ''Nenhum player ativo'' \<and>
   title_var (update_info w force st) = lit ''Nenhum player selecionado'' \<and>
   status_var (update_info w force st) = lit ''Selecione um player acima''"
  by (simp add: update_info_selected update_info_player_list update_info_combo_values
      update_info_combo_text update_info_title update_info_status)

theorem no_players_clears_selection_witness:
  "selected_player firefox_state \<noteq> None \<and>
   selected_player (update_info silent_env False firefox_state) = None \<and>
   title_var (update_info silent_env False firefox_state) = lit ''Nenhum player selecionado'' \<and>
   combo_text (update_info silent_env False firefox_state) = lit ''Nenhum player ativo''"
  using no_players_clears_selection [of silent_env False firefox_state]
  by (simp add: silent_players firefox_state_def)

text \<open>
  Claim C3. When the registry returns a non-empty list, a player is selected and the
  tick is not forced, the tick keeps the selection, and the text of the combobox with
  it. The code does not look the selected player up in the new list, so this holds for
  every selected player, in the list or not.
\<close>

theorem selection_kept:
  "fst (list_players w) \<noteq> [] \<Longrightarrow> selected_player st = Some p \<Longrightarrow>
   selected_player (update_info w False st) = selected_player st \<and>
   combo_text (update_info w False st) = combo_text st"
  by (simp add: update_info_selected update_info_combo_text)

theorem selection_kept_witness:
  "selected_player (update_info demo_env False firefox_state)
     = Some (lit ''firefox.instance2'', lit ''Firefox'') \<and>
   combo_text (update_info demo_env False firefox_state) = lit ''Firefox''"
  using selection_kept [of demo_env firefox_state "(lit ''firefox.instance2'', lit ''Firefox'')"]
  by (simp add: demo_players firefox_state_def)

section \<open>Two ticks\<close>

lemma second_tick_selected:
  "force2 \<longrightarrow> force1 \<Longrightarrow>
   selected_player (update_info w force2 (update_info w force1 st))
     = selected_player (update_info w force1 st)"
  by (auto simp add: update_info_selected)

lemma second_tick_display:
  assumes "force2 \<longrightarrow> force1"
  shows "display (update_info w force2 (update_info w force1 st))
     = display (update_info w force1 st)"
proof -
  let ?s1 = "update_info w force1 st"
  let ?s2 = "update_info w force2 ?s1"
  have sel: "selected_player ?s2 = selected_player ?s1"
    using assms by (rule second_tick_selected)
  have "title_var ?s2 = title_var ?s1"
    by (simp only: update_info_title [of w force2 ?s1] update_info_title [of w force1 st] sel)
  moreover have "status_var ?s2 = status_var ?s1"
    by (simp only: update_info_status [of w force2 ?s1] update_info_status [of w force1 st] sel)
  moreover have "volume_var ?s2 = volume_var ?s1"
    by (simp only: update_info_volume)
  moreover have "combo_values ?s2 = combo_values ?s1"
    by (simp only: update_info_combo_values)
  moreover have "combo_text ?s2 = combo_text ?s1"
    using assms
    by (auto simp add: update_info_combo_text update_info_selected)
  ultimately show ?thesis by (simp add: display_def)
qed

text \<open>
  Claim C8. Two ticks in succession in the same environment (the same answer to every
  call of the tools): after the second tick the display (title, status, volume, values
  and text of the combobox), the selection and the cached player list are what they
  were after the first. This holds when the second tick is the timer tick (not forced)
  and when both ticks have the same force flag.
\<close>

theorem update_info_twice:
  "display (update_info w False (update_info w force st)) = display (update_info w force st) \<and>
   selected_player (update_info w False (update_info w force st))
     = selected_player (update_info w force st) \<and>
   player_list (update_info w False (update_info w force st))
     = player_list (update_info w force st) \<and>
   display (update_info w force (update_info w force st)) = display (update_info w force st) \<and>
   selected_player (update_info w force (update_info w force st))
     = selected_player (update_info w force st) \<and>
   player_list (update_info w force (update_info w force st))
     = player_list (update_info w force st)"
  by (simp add: second_tick_display second_tick_selected update_info_player_list)

section \<open>Truncation\<close>

lemma get_friendly_name_label:
  "fst (run_playerctl w [lit ''metadata'', lit ''--format'',
                        lit ''{{xesam:artist}} - {{xesam:title}}''] (Some player_id)) = Some d \<Longrightarrow>
   d \<noteq> [] \<Longrightarrow>
   fst (get_friendly_name w player_id)
     = capitalize w (py_split 46 player_id ! 0) @ [32, 8594, 32]
       @ (if length d > 60 then take 60 d @ lit ''...'' else d)"
  by (auto simp add: get_friendly_name_def Let_def split: prod.splits)

text \<open>
  Claim C5. The title shown for the selected player is the title itself when it has at
  most 50 characters, and its first 50 characters followed by three full stops when it
  has more. The label of a player whose artist-and-title snippet is not empty is the
  application name, an arrow, and the snippet itself when it has at most 60 characters,
  its first 60 characters followed by three full stops when it has more.
\<close>

theorem truncation:
  "(selected_player (update_info w force st) = Some sp \<longrightarrow>
    title = py_or (fst (run_playerctl w [lit ''metadata'', lit ''xesam:title'']
                         (Some (fst sp)))) TITLE_UNAVAILABLE \<longrightarrow>
    title_var (update_info w force st)
      = (if length title > 50 then take 50 title @ lit ''...'' else title) \<and>
    (length title > 50 \<longrightarrow> length (title_var (update_info w force st)) = 53)) \<and>
   (fst (run_playerctl w [lit ''metadata'', lit ''--format'',
                          lit ''{{xesam:artist}} - {{xesam:title}}''] (Some player_id)) = Some d \<longrightarrow>
    d \<noteq> [] \<longrightarrow>
    fst (get_friendly_name w player_id)
      = capitalize w (py_split 46 player_id ! 0) @ [32, 8594, 32]
        @ (if length d > 60 then take 60 d @ lit ''...'' else d) \<and>
    length (lit ''...'') = 3)"
  by (auto simp add: update_info_title get_friendly_name_label Let_def lit_def)

theorem truncation_witness:
  "title_var (update_info demo_env False initial_state) = replicate 50 120 @ lit ''...'' \<and>
   fst (get_friendly_name demo_env (lit ''spotify.instance1''))
     = lit ''Spotify'' @ [32, 8594, 32] @ replicate 60 121 @ lit ''...''"
proof -
  have sel: "selected_player (update_info demo_env False initial_state)
      = Some (lit ''spotify.instance1'',
              lit ''Spotify'' @ [32, 8594, 32] @ replicate 60 121 @ lit ''...'')"
    by (simp add: update_info_selected demo_players initial_state_def)
  have title: "py_or (fst (run_playerctl demo_env [lit ''metadata'', lit ''xesam:title'']
        (Some (lit ''spotify.instance1'')))) TITLE_UNAVAILABLE = replicate 51 120"
    by (simp add: run_playerctl_def demo_env_def demo_run_def lit_def py_strip_def
        py_isspace_def py_or_def)
  have snippet: "fst (run_playerctl demo_env [lit ''metadata'', lit ''--format'',
        lit ''{{xesam:artist}} - {{xesam:title}}''] (Some (lit ''spotify.instance1'')))
      = Some (replicate 61 121)"
    by (simp add: run_playerctl_def demo_env_def demo_run_def lit_def py_strip_def
        py_isspace_def)
  have app: "capitalize demo_env (py_split 46 (lit ''spotify.instance1'') ! 0) = lit ''Spotify''"
    by (simp add: demo_env_def ascii_capitalize_def lit_def)
  show ?thesis
    using truncation [where w = demo_env and force = False and st = initial_state
        and sp = "(lit ''spotify.instance1'',
                   lit ''Spotify'' @ [32, 8594, 32] @ replicate 60 121 @ lit ''...'')"
        and title = "replicate 51 120" and player_id = "lit ''spotify.instance1''"
        and d = "replicate 61 121"]
    by (simp add: sel title snippet app)
qed

section \<open>The volume formatter\<close>

lemma get_volume_loop_find:
  "get_volume_loop ls =
     (case find (py_in (lit ''Volume:'')) ls of
        None \<Rightarrow> Inr None
      | Some line \<Rightarrow>
          if 47 \<in> set line then Inr (Some (py_strip (between_slashes line)))
          else Inl IndexError)"
  by (induction ls) (simp_all add: py_split_second)

lemma get_volume_value:
  "fst (get_volume w) =
     (case subprocess_run w (Shell (lit ''pactl get-sink-volume @DEFAULT_SINK@'')) of
        Raised \<Rightarrow> lit ''--%''
      | Completed returncode out \<Rightarrow>
          (case find (py_in (lit ''Volume:'')) (py_splitlines out) of
             None \<Rightarrow> lit ''--%''
           | Some line \<Rightarrow>
               if 47 \<in> set line then py_strip (between_slashes line) else lit ''--%''))"
  by (simp add: get_volume_def get_volume_loop_find Let_def
      split: completed.splits option.splits)

text \<open>
  Claim C6. When the output of the audio tool has a line with the marker \<open>Volume:\<close>,
  the volume formatter takes the first such line and returns what stands between its
  first and its second slash, stripped. It returns the sentinel \<open>--%\<close> when
  no line has the marker, when the call of the tool raises, and when the line has no
  slash (the \<open>IndexError\<close> of the source, swallowed by its \<open>except\<close>).
\<close>

theorem get_volume_result:
  "(subprocess_run w (Shell (lit ''pactl get-sink-volume @DEFAULT_SINK@'')) = Raised \<longrightarrow>
      fst (get_volume w) = lit ''--%'') \<and>
   (subprocess_run w (Shell (lit ''pactl get-sink-volume @DEFAULT_SINK@''))
      = Completed returncode out \<longrightarrow>
      (find (py_in (lit ''Volume:'')) (py_splitlines out) = None \<longrightarrow>
         fst (get_volume w) = lit ''--%'') \<and>
      (find (py_in (lit ''Volume:'')) (py_splitlines out) = Some line \<longrightarrow>
         (47 \<in> set line \<longrightarrow> fst (get_volume w) = py_strip (between_slashes line)) \<and>
         (47 \<notin> set line \<longrightarrow> fst (get_volume w) = lit ''--%'')))"
  by (simp add: get_volume_value)

lemma demo_volume_line:
  "find (py_in (lit ''Volume:'')) (py_splitlines (lit ''Volume: front-left: .../  45% / ...'' @ [10]))
     = Some (lit ''Volume: front-left: .../  45% / ...'')"
  by (simp add: py_splitlines_def is_linebreak_def lit_def)

theorem get_volume_result_witness:
  "fst (get_volume demo_env) = lit ''45%'' \<and>
   fst (get_volume failing_env) = lit ''--%'' \<and>
   fst (get_volume silent_env) = lit ''--%''"
  using
    get_volume_result [of demo_env 0 "lit ''Volume: front-left: .../  45% / ...'' @ [10]"
      "lit ''Volume: front-left: .../  45% / ...''"]
    get_volume_result [of failing_env 0 "lit ''Volume: muted'' @ [10]" "lit ''Volume: muted''"]
    get_volume_result [of silent_env 0 "[]" "[]"]
  by (simp add: demo_env_def demo_run_def failing_env_def failing_run_def silent_env_def
      py_splitlines_def is_linebreak_def lit_def between_slashes_def py_strip_def
      py_isspace_def)

text \<open>The two ticks of claim C8 in the environment with two players.\<close>

theorem update_info_twice_witness:
  "display (update_info demo_env False (update_info demo_env False initial_state))
     = display (update_info demo_env False initial_state) \<and>
   selected_player (update_info demo_env False (update_info demo_env False initial_state))
     = Some (lit ''spotify.instance1'',
             lit ''Spotify'' @ [32, 8594, 32] @ replicate 60 121 @ lit ''...'') \<and>
   volume_var (update_info demo_env False (update_info demo_env False initial_state))
     = lit ''45%''"
proof -
  have "selected_player (update_info demo_env False initial_state)
      = Some (lit ''spotify.instance1'',
              lit ''Spotify'' @ [32, 8594, 32] @ replicate 60 121 @ lit ''...'')"
    by (simp add: update_info_selected demo_players initial_state_def)
  moreover have "fst (get_volume demo_env) = lit ''45%''"
    by (simp add: get_volume_value demo_env_def demo_run_def py_splitlines_def
        is_linebreak_def lit_def between_slashes_def py_strip_def py_isspace_def)
  ultimately show ?thesis
    using update_info_twice [of demo_env False initial_state]
    by (simp add: update_info_volume)
qed

section \<open>Failing queries\<close>

lemma title_unavailable_short:
  "take 50 TITLE_UNAVAILABLE @ (if length TITLE_UNAVAILABLE > 50 then lit ''...'' else [])
     = TITLE_UNAVAILABLE"
  by (simp add: TITLE_UNAVAILABLE_def lit_def)

lemma strip_stopped: "py_strip (lit '' '' @ STATUS_STOPPED) = STATUS_STOPPED"
  by (simp add: STATUS_STOPPED_def lit_def py_strip_def py_isspace_def)

lemma run_playerctl_None:
  "(fst (run_playerctl w args player) = None)
     = failed (subprocess_run w (hd (snd (run_playerctl w args player))))"
  by (simp add: run_playerctl_def failed_def Let_def split: completed.splits)

lemma failed_listing:
  "fst (run_playerctl w [lit ''-l''] None) = None \<Longrightarrow> fst (list_players w) = []"
  by (cases "run_playerctl w [lit ''-l''] None") (simp add: list_players_def)

lemma failed_label:
  "fst (run_playerctl w [lit ''metadata'', lit ''--format'',
                        lit ''{{xesam:artist}} - {{xesam:title}}''] (Some player_id)) = None \<Longrightarrow>
   fst (get_friendly_name w player_id) = capitalize w (py_split 46 player_id ! 0)"
  by (auto simp add: get_friendly_name_def Let_def split: prod.splits)

lemma failed_status:
  "fst (run_playerctl w [lit ''status''] (Some p)) = None \<Longrightarrow>
   fst (get_player_status w p) = STATUS_STOPPED"
  by (cases "run_playerctl w [lit ''status''] (Some p)") (simp add: get_player_status_def)

lemma list_players_loop_labels:
  "(pid, label) \<in> set (fst (list_players_loop w ls)) \<Longrightarrow>
   label = fst (get_friendly_name w pid)"
  by (induction ls) (auto split: if_splits prod.splits)

lemma list_players_labels:
  "(pid, label) \<in> set (fst (list_players w)) \<Longrightarrow> label = fst (get_friendly_name w pid)"
  by (auto simp add: list_players_def split: prod.splits option.splits if_splits)
    (metis fst_conv list_players_loop_labels)

text \<open>
  Claim C9, as stated, fails in four ways. After a failed title query for the selected
  player the title shown is the fallback text of the source, not the empty string. A
  tick that finds the window gone sets no timer. The exit status of \<open>pactl\<close> is not
  read: after a non-zero exit the volume printed is shown. Malformed output is shown as
  it parses: a volume line with only a space between its slashes gives the empty
  volume, and a warning printed by the listing becomes the selected player.
\<close>

theorem failed_title_counterexample:
  "fst (run_playerctl failing_env [lit ''metadata'', lit ''xesam:title''] (Some (lit ''vlc'')))
     = None \<and>
   selected_player (update_info failing_env False initial_state)
     = Some (lit ''vlc'', lit ''Vlc'') \<and>
   title_var (update_info failing_env False initial_state)
     = lit ''T'' @ [237] @ lit ''tulo indispon'' @ [237] @ lit ''vel'' \<and>
   title_var (update_info failing_env False initial_state) \<noteq> [] \<and>
   timers (update_info failing_env False initial_state) = timers initial_state \<and>
   failed (subprocess_run noisy_env (Shell (lit ''pactl get-sink-volume @DEFAULT_SINK@''))) \<and>
   volume_var (update_info noisy_env False initial_state) = lit ''100%'' \<and>
   selected_player (update_info noisy_env False initial_state)
     = Some (lit ''Warning: no bus'', lit ''Warning: no bus'') \<and>
   volume_var (update_info slashes_env False initial_state) = []"
proof -
  have sel: "selected_player (update_info failing_env False initial_state)
      = Some (lit ''vlc'', lit ''Vlc'')"
    by (simp add: update_info_selected failing_players initial_state_def)
  have q: "fst (run_playerctl failing_env [lit ''metadata'', lit ''xesam:title'']
      (Some (lit ''vlc''))) = None"
    by (simp add: run_playerctl_def failing_env_def failing_run_def lit_def)
  have title: "title_var (update_info failing_env False initial_state) = TITLE_UNAVAILABLE"
    by (simp add: update_info_title sel q py_or_def title_unavailable_short)
  have timer: "timers (update_info failing_env False initial_state) = timers initial_state"
    by (simp add: update_info_timers failing_env_def)
  have exit1: "failed (subprocess_run noisy_env
      (Shell (lit ''pactl get-sink-volume @DEFAULT_SINK@'')))"
    by (simp add: failed_def noisy_env_def noisy_run_def lit_def)
  have vol100: "volume_var (update_info noisy_env False initial_state) = lit ''100%''"
    by (simp add: update_info_volume get_volume_value noisy_env_def noisy_run_def
        py_splitlines_def is_linebreak_def lit_def between_slashes_def py_strip_def
        py_isspace_def)
  have noisy_players:
    "fst (list_players noisy_env) = [(lit ''Warning: no bus'', lit ''Warning: no bus'')]"
    by (simp add: list_players_def get_friendly_name_def run_playerctl_def noisy_env_def
        noisy_run_def lit_def py_strip_def py_isspace_def py_splitlines_def is_linebreak_def
        ascii_capitalize_def split: prod.splits)
  have warning: "selected_player (update_info noisy_env False initial_state)
      = Some (lit ''Warning: no bus'', lit ''Warning: no bus'')"
    by (simp add: update_info_selected noisy_players initial_state_def)
  have empty: "volume_var (update_info slashes_env False initial_state) = []"
    by (simp add: update_info_volume get_volume_value slashes_env_def slashes_run_def
        py_splitlines_def is_linebreak_def lit_def between_slashes_def py_strip_def
        py_isspace_def)
  show ?thesis
    using sel q title timer exit1 vol100 warning empty
    by (simp add: TITLE_UNAVAILABLE_def)
qed

text \<open>
  Claim C9, amended. A call of \<open>playerctl\<close> returns \<open>None\<close> exactly when it raises or
  exits with a non-zero status, and during a tick each such failure degrades to a
  placeholder: a failed listing gives the empty player list and the no-player
  placeholders; a failed label query gives the application name alone, for every player
  of the list; a failed title query for the selected player gives the fallback title
  \<open>TITLE_UNAVAILABLE\<close>; a failed artist query gives an empty artist, so that the status
  line is the status string alone; a failed status query gives the stopped string. The
  volume query gives \<open>--%\<close> when it raises, when it prints no volume line and when the
  first volume line has no slash; otherwise the tick shows what stands between the first
  two slashes of that line, whatever the exit status. The tick always returns a state,
  and it sets its timer of 3000 ms exactly when the window exists.
\<close>

theorem failures_degrade:
  "st' = update_info w force st \<Longrightarrow>
   ((fst (run_playerctl w args player) = None)
      = failed (subprocess_run w (hd (snd (run_playerctl w args player))))) \<and>
   (fst (run_playerctl w [lit ''-l''] None) = None \<longrightarrow>
      player_list st' = [] \<and>
      combo_values st' = [] \<and>
      selected_player st' = None \<and>
      combo_text st' = lit ''Nenhum player ativo'' \<and>
      title_var st' = lit ''Nenhum player selecionado'' \<and>
      status_var st' = lit ''Selecione um player acima'') \<and>
   (\<forall>(pid, label) \<in> set (player_list st').
      label = fst (get_friendly_name w pid) \<and>
      (fst (run_playerctl w [lit ''metadata'', lit ''--format'',
                             lit ''{{xesam:artist}} - {{xesam:title}}''] (Some pid)) = None \<longrightarrow>
         label = capitalize w (py_split 46 pid ! 0))) \<and>
   (selected_player st' = Some sp \<longrightarrow>
      (fst (run_playerctl w [lit ''metadata'', lit ''xesam:title''] (Some (fst sp))) = None \<longrightarrow>
         title_var st' = TITLE_UNAVAILABLE) \<and>
      (fst (run_playerctl w [lit ''metadata'', lit ''xesam:artist''] (Some (fst sp))) = None \<longrightarrow>
         status_var st' = py_strip (lit '' '' @ fst (get_player_status w (fst sp)))) \<and>
      (fst (run_playerctl w [lit ''status''] (Some (fst sp))) = None \<longrightarrow>
         fst (get_player_status w (fst sp)) = STATUS_STOPPED) \<and>
      (fst (run_playerctl w [lit ''metadata'', lit ''xesam:artist''] (Some (fst sp))) = None \<and>
       fst (run_playerctl w [lit ''status''] (Some (fst sp))) = None \<longrightarrow>
         status_var st' = STATUS_STOPPED)) \<and>
   (subprocess_run w (Shell (lit ''pactl get-sink-volume @DEFAULT_SINK@'')) = Raised \<longrightarrow>
      volume_var st' = lit ''--%'') \<and>
   (subprocess_run w (Shell (lit ''pactl get-sink-volume @DEFAULT_SINK@''))
      = Completed returncode out \<longrightarrow>
      (find (py_in (lit ''Volume:'')) (py_splitlines out) = None \<longrightarrow>
         volume_var st' = lit ''--%'') \<and>
      (find (py_in (lit ''Volume:'')) (py_splitlines out) = Some line \<longrightarrow>
         (47 \<notin> set line \<longrightarrow> volume_var st' = lit ''--%'') \<and>
         (47 \<in> set line \<longrightarrow> volume_var st' = py_strip (between_slashes line)))) \<and>
   timers st' = (if winfo_exists w then timers st @ [3000] else timers st)"
proof -
  assume st': "st' = update_info w force st"
  have labels: "\<forall>(pid, label) \<in> set (player_list st').
      label = fst (get_friendly_name w pid) \<and>
      (fst (run_playerctl w [lit ''metadata'', lit ''--format'',
                             lit ''{{xesam:artist}} - {{xesam:title}}''] (Some pid)) = None \<longrightarrow>
         label = capitalize w (py_split 46 pid ! 0))"
    unfolding st' update_info_player_list
    using list_players_labels [of _ _ w] failed_label [of w] by fastforce
  have rest: "(fst (run_playerctl w [lit ''-l''] None) = None \<longrightarrow>
      player_list st' = [] \<and>
      combo_values st' = [] \<and>
      selected_player st' = None \<and>
      combo_text st' = lit ''Nenhum player ativo'' \<and>
      title_var st' = lit ''Nenhum player selecionado'' \<and>
      status_var st' = lit ''Selecione um player acima'') \<and>
   (selected_player st' = Some sp \<longrightarrow>
      (fst (run_playerctl w [lit ''metadata'', lit ''xesam:title''] (Some (fst sp))) = None \<longrightarrow>
         title_var st' = TITLE_UNAVAILABLE) \<and>
      (fst (run_playerctl w [lit ''metadata'', lit ''xesam:artist''] (Some (fst sp))) = None \<longrightarrow>
         status_var st' = py_strip (lit '' '' @ fst (get_player_status w (fst sp)))) \<and>
      (fst (run_playerctl w [lit ''status''] (Some (fst sp))) = None \<longrightarrow>
         fst (get_player_status w (fst sp)) = STATUS_STOPPED) \<and>
      (fst (run_playerctl w [lit ''metadata'', lit ''xesam:artist''] (Some (fst sp))) = None \<and>
       fst (run_playerctl w [lit ''status''] (Some (fst sp))) = None \<longrightarrow>
         status_var st' = STATUS_STOPPED)) \<and>
   (subprocess_run w (Shell (lit ''pactl get-sink-volume @DEFAULT_SINK@'')) = Raised \<longrightarrow>
      volume_var st' = lit ''--%'') \<and>
   (subprocess_run w (Shell (lit ''pactl get-sink-volume @DEFAULT_SINK@''))
      = Completed returncode out \<longrightarrow>
      (find (py_in (lit ''Volume:'')) (py_splitlines out) = None \<longrightarrow>
         volume_var st' = lit ''--%'') \<and>
      (find (py_in (lit ''Volume:'')) (py_splitlines out) = Some line \<longrightarrow>
         (47 \<notin> set line \<longrightarrow> volume_var st' = lit ''--%'') \<and>
         (47 \<in> set line \<longrightarrow> volume_var st' = py_strip (between_slashes line)))) \<and>
   timers st' = (if winfo_exists w then timers st @ [3000] else timers st)"
    unfolding st'
    by (auto simp add: failed_listing failed_status update_info_selected [of w force st]
        update_info_player_list update_info_combo_values
        update_info_combo_text update_info_title update_info_status update_info_volume
        update_info_timers get_volume_value py_or_def title_unavailable_short strip_stopped)
  show ?thesis
    using labels rest run_playerctl_None [of w args player] by blast
qed

theorem failures_degrade_witness:
  "failed (subprocess_run failing_env
     (Argv [lit ''playerctl'', lit ''-p'', lit ''vlc'', lit ''status''])) \<and>
   player_list (update_info failing_env False initial_state) = [(lit ''vlc'', lit ''Vlc'')] \<and>
   selected_player (update_info failing_env False initial_state)
     = Some (lit ''vlc'', lit ''Vlc'') \<and>
   title_var (update_info failing_env False initial_state) = TITLE_UNAVAILABLE \<and>
   status_var (update_info failing_env False initial_state) = STATUS_STOPPED \<and>
   volume_var (update_info failing_env False initial_state) = lit ''--%'' \<and>
   timers (update_info failing_env False initial_state) = [] \<and>
   selected_player (update_info silent_env False initial_state) = None \<and>
   title_var (update_info silent_env False initial_state) = lit ''Nenhum player selecionado'' \<and>
   volume_var (update_info silent_env False initial_state) = lit ''--%'' \<and>
   timers (update_info silent_env False initial_state) = [3000] \<and>
   volume_var (update_info noisy_env False initial_state) = lit ''100%''"
proof -
  have sel: "selected_player (update_info failing_env False initial_state)
      = Some (lit ''vlc'', lit ''Vlc'')"
    by (simp add: update_info_selected failing_players initial_state_def)
  have noisy: "subprocess_run noisy_env (Shell (lit ''pactl get-sink-volume @DEFAULT_SINK@''))
      = Completed 1 (lit ''Volume: front-left: 65536 / 100% / 0.00 dB'' @ [10])"
    by (simp add: noisy_env_def noisy_run_def lit_def)
  have noisy_line: "find (py_in (lit ''Volume:''))
      (py_splitlines (lit ''Volume: front-left: 65536 / 100% / 0.00 dB'' @ [10]))
      = Some (lit ''Volume: front-left: 65536 / 100% / 0.00 dB'')"
    by (simp add: py_splitlines_def is_linebreak_def lit_def)
  have noisy_field: "47 \<in> set (lit ''Volume: front-left: 65536 / 100% / 0.00 dB'')"
      "py_strip (between_slashes (lit ''Volume: front-left: 65536 / 100% / 0.00 dB''))
         = lit ''100%''"
    by (simp_all add: lit_def between_slashes_def py_strip_def py_isspace_def)
  have pl: "player_list (update_info failing_env False initial_state)
      = [(lit ''vlc'', lit ''Vlc'')]"
    by (simp add: update_info_player_list failing_players)
  have q: "fst (run_playerctl failing_env args (Some (lit ''vlc''))) = None" for args
    by (simp add: run_playerctl_def failing_env_def failing_run_def lit_def)
  have call: "hd (snd (run_playerctl failing_env [lit ''status''] (Some (lit ''vlc''))))
      = Argv [lit ''playerctl'', lit ''-p'', lit ''vlc'', lit ''status'']"
    by (simp add: run_playerctl_def failing_env_def lit_def Let_def)
  have vol: "subprocess_run failing_env (Shell (lit ''pactl get-sink-volume @DEFAULT_SINK@''))
      = Completed 0 (lit ''Volume: muted'' @ [10])"
    by (simp add: failing_env_def failing_run_def lit_def)
  have line: "find (py_in (lit ''Volume:'')) (py_splitlines (lit ''Volume: muted'' @ [10]))
      = Some (lit ''Volume: muted'')"
    by (simp add: py_splitlines_def is_linebreak_def lit_def)
  have init: "timers initial_state = []"
    by (simp add: initial_state_def)
  have noslash: "47 \<notin> set (lit ''Volume: muted'')"
    by (simp add: lit_def)
  have silent: "fst (run_playerctl silent_env [lit ''-l''] None) = None"
      "subprocess_run silent_env (Shell (lit ''pactl get-sink-volume @DEFAULT_SINK@'')) = Raised"
      "winfo_exists silent_env" "\<not> winfo_exists failing_env"
    by (simp_all add: run_playerctl_def silent_env_def failing_env_def)
  show ?thesis
    using
      failures_degrade [where w = failing_env and force = False and st = initial_state
        and st' = "update_info failing_env False initial_state"
        and args = "[lit ''status'']" and player = "Some (lit ''vlc'')"
        and sp = "(lit ''vlc'', lit ''Vlc'')" and returncode = 0
        and out = "lit ''Volume: muted'' @ [10]" and line = "lit ''Volume: muted''"]
      failures_degrade [where w = silent_env and force = False and st = initial_state
        and st' = "update_info silent_env False initial_state"
        and args = "[lit ''-l'']" and player = None
        and sp = "([], [])" and returncode = 0 and out = "[]" and line = "[]"]
      failures_degrade [where w = noisy_env and force = False and st = initial_state
        and st' = "update_info noisy_env False initial_state"
        and args = "[lit ''-l'']" and player = None
        and sp = "([], [])" and returncode = 1
        and out = "lit ''Volume: front-left: 65536 / 100% / 0.00 dB'' @ [10]"
        and line = "lit ''Volume: front-left: 65536 / 100% / 0.00 dB''"]
    by (simp add: sel pl q call vol line noslash silent init strip_stopped noisy noisy_line
        noisy_field)
qed

end
